theory Spec2Isabelle
  imports Main "HOL-Library.Multiset" "HOL-Library.List_Lexorder" "HOL-Library.Product_Lexorder"
begin

section \<open>Python strings\<close>

text \<open>
  A Python \<open>str\<close> is a sequence of Unicode code points, so a string is a list of code
  points here; the order on such lists (lexicographic, from the library) is the order
  Python and pandas sort strings by. ASCII literals are written through \<open>ustr\<close>, the
  Cyrillic literals of the source are spelled out as code points.
\<close>

type_synonym ustring = "nat list"

definition ustr :: "string \<Rightarrow> ustring" where
  "ustr s = map of_char s"

text \<open>
  \<open>str.lower\<close> and \<open>str.upper\<close>, exact on Basic Latin (U+0000..U+007F) and on the
  Cyrillic block (U+0400..U+04FF), which hold every literal of the engine; code points
  of other blocks are left unchanged.
\<close>

definition cyr_pair :: "nat \<Rightarrow> bool" where
  "cyr_pair c \<longleftrightarrow> (0x460 \<le> c \<and> c \<le> 0x481) \<or> (0x48A \<le> c \<and> c \<le> 0x4BF)
     \<or> (0x4D0 \<le> c \<and> c \<le> 0x4FF)"

definition lower_cp :: "nat \<Rightarrow> nat" where
  "lower_cp c =
     (if 0x41 \<le> c \<and> c \<le> 0x5A then c + 0x20
      else if 0x400 \<le> c \<and> c \<le> 0x40F then c + 0x50
      else if 0x410 \<le> c \<and> c \<le> 0x42F then c + 0x20
      else if cyr_pair c \<and> even c then c + 1
      else if c = 0x4C0 then 0x4CF
      else if 0x4C1 \<le> c \<and> c \<le> 0x4CE \<and> odd c then c + 1
      else c)"

definition upper_cp :: "nat \<Rightarrow> nat" where
  "upper_cp c =
     (if 0x61 \<le> c \<and> c \<le> 0x7A then c - 0x20
      else if 0x450 \<le> c \<and> c \<le> 0x45F then c - 0x50
      else if 0x430 \<le> c \<and> c \<le> 0x44F then c - 0x20
      else if cyr_pair c \<and> odd c then c - 1
      else if c = 0x4CF then 0x4C0
      else if 0x4C1 \<le> c \<and> c \<le> 0x4CE \<and> even c then c - 1
      else c)"

definition py_lower :: "ustring \<Rightarrow> ustring" where
  "py_lower s = map lower_cp s"

definition py_upper :: "ustring \<Rightarrow> ustring" where
  "py_upper s = map upper_cp s"

text \<open>\<open>str.capitalize\<close>: first character upper case, the rest lower case.\<close>

definition py_capitalize :: "ustring \<Rightarrow> ustring" where
  "py_capitalize s = (case s of [] \<Rightarrow> [] | c # cs \<Rightarrow> upper_cp c # map lower_cp cs)"

text \<open>\<open>str.isspace\<close> on one code point, as \<open>str.strip()\<close> uses it.\<close>

definition is_space :: "nat \<Rightarrow> bool" where
  "is_space c \<longleftrightarrow> (0x9 \<le> c \<and> c \<le> 0xD) \<or> (0x1C \<le> c \<and> c \<le> 0x20) \<or> c = 0x85 \<or> c = 0xA0
     \<or> c = 0x1680 \<or> (0x2000 \<le> c \<and> c \<le> 0x200A) \<or> c = 0x2028 \<or> c = 0x2029
     \<or> c = 0x202F \<or> c = 0x205F \<or> c = 0x3000"

definition py_strip :: "ustring \<Rightarrow> ustring" where
  "py_strip s = rev (dropWhile is_space (rev (dropWhile is_space s)))"

text \<open>\<open>s.startswith(p)\<close> and the substring test \<open>p in s\<close>.\<close>

fun startswith :: "'a list \<Rightarrow> 'a list \<Rightarrow> bool" where
  "startswith [] s = True"
| "startswith (p # ps) [] = False"
| "startswith (p # ps) (c # cs) = (p = c \<and> startswith ps cs)"

fun py_in :: "'a list \<Rightarrow> 'a list \<Rightarrow> bool" where
  "py_in p [] = (p = [])"
| "py_in p (c # cs) = (startswith p (c # cs) \<or> py_in p cs)"

text \<open>
  \<open>s.replace(old, "")\<close>: the occurrences of \<open>old\<close> are removed from left to right
  without overlap; with an empty \<open>old\<close> the string is returned as it is.
\<close>

function py_remove :: "'a list \<Rightarrow> 'a list \<Rightarrow> 'a list" where
  "py_remove old [] = []"
| "py_remove old (c # cs) =
     (if old \<noteq> [] \<and> startswith old (c # cs) then py_remove old (drop (length old) (c # cs))
      else c # py_remove old cs)"
  by pat_completeness auto
termination
  by (relation "measure (\<lambda>(old, s). length s)") auto

section \<open>Data model\<close>

text \<open>
  A ticket row. Every field is read as \<open>str(ticket.get(key, default))\<close>, so a field is
  \<open>None\<close> when the row has no such key and otherwise holds the text \<open>str\<close> gives for
  the cell (a NaN cell is the text \<open>nan\<close>).
\<close>

record ticket =
  guid :: "ustring option"
  description :: "ustring option"
  segment :: "ustring option"
  country :: "ustring option"
  city :: "ustring option"

text \<open>
  A row of \<open>self.managers\<close> as the constructor leaves it: stripped name and office,
  normalised position, parsed skill set and integer load.
\<close>

record manager =
  name :: ustring
  pos_norm :: ustring
  skills_set :: "ustring set"
  office :: ustring
  load :: int

datatype seg = VIP | PRIORITY | MASS

datatype lang = KZ | ENG | RU

text \<open>
  The ticket types of \<open>analyze_ticket\<close>, in the order of its keyword table; the default
  type is \<open>Consultation\<close>.
\<close>

datatype intent = Fraud | AppFailure | Claim | DataChange | Complaint | Spam | Consultation

record analysis =
  a_type :: intent
  a_lang :: lang
  a_priority :: nat
  a_segment :: seg

type_synonym rr_key = "ustring \<times> seg \<times> intent \<times> lang"

text \<open>
  One row of the output frame. \<open>res_row\<close> is not a column of the output: it records the
  index label (\<open>selected.name\<close>) of the row whose load the ticket incremented, \<open>None\<close>
  for an unassigned ticket.
\<close>

record result =
  res_guid :: ustring
  ai_type :: intent
  ai_lang :: lang
  priority :: nat
  res_office :: ustring
  res_manager :: ustring
  res_row :: "nat option"

text \<open>
  The engine object. \<open>managers\<close> carries the default index 0, 1, ... of a frame read
  from a file, so a row's index label is its position in the list.
\<close>

record engine =
  enable_fallback :: bool
  units :: "ustring list"
  managers :: "manager list"
  astana_office :: ustring
  almaty_office :: ustring
  rr_counters :: "rr_key \<Rightarrow> nat option"
  unknown_loc_counter :: nat

section \<open>Literals of the source\<close>

definition kw_ofis :: ustring where
  "kw_ofis = [0x43E, 0x444, 0x438, 0x441]"

definition kw_astan :: ustring where
  "kw_astan = [0x430, 0x441, 0x442, 0x430, 0x43D]"

definition kw_almat :: ustring where
  "kw_almat = [0x430, 0x43B, 0x43C, 0x430, 0x442]"

definition kw_glav :: ustring where
  "kw_glav = [0x433, 0x43B, 0x430, 0x432]"

definition kw_spec :: ustring where
  "kw_spec = [0x441, 0x43F, 0x435, 0x446]"

definition kw_kazakhstan_ru :: ustring where
  "kw_kazakhstan_ru = [0x43A, 0x430, 0x437, 0x430, 0x445, 0x441, 0x442, 0x430, 0x43D]"

definition domestic_tokens :: "ustring list" where
  "domestic_tokens = [kw_kazakhstan_ru, ustr ''kazakhstan'', ustr ''kz'']"

text \<open>The character class of the Kazakh-letter test, U+04D9 ... U+0456, U+0406.\<close>

definition kz_letters :: "nat list" where
  "kz_letters = [0x4D9, 0x493, 0x49B, 0x4A3, 0x4E9, 0x4B1, 0x4AF, 0x4BB, 0x456, 0x406]"

text \<open>The keyword table, in the insertion order of the dictionary.\<close>

definition keyword_table :: "(intent \<times> ustring list) list" where
  "keyword_table =
    [(Fraud,
       [[0x43C, 0x43E, 0x448, 0x435, 0x43D, 0x43D, 0x438, 0x43A],
        [0x443, 0x43A, 0x440, 0x430, 0x43B, 0x438],
        [0x444, 0x440, 0x43E, 0x434],
        [0x432, 0x437, 0x43B, 0x43E, 0x43C]]),
     (AppFailure,
       [[0x43E, 0x448, 0x438, 0x431, 0x43A, 0x430],
        [0x431, 0x430, 0x433],
        [0x43D, 0x435, 0x20, 0x440, 0x430, 0x431, 0x43E, 0x442, 0x430, 0x435, 0x442],
        [0x432, 0x44B, 0x43B, 0x435, 0x442, 0x430, 0x435, 0x442]]),
     (Claim,
       [[0x43F, 0x440, 0x435, 0x442, 0x435, 0x43D, 0x437, 0x438, 0x44F],
        [0x432, 0x43E, 0x437, 0x432, 0x440, 0x430, 0x442],
        [0x441, 0x443, 0x434],
        [0x43A, 0x43E, 0x43C, 0x43F, 0x435, 0x43D, 0x441, 0x430, 0x446, 0x438, 0x44F]]),
     (DataChange,
       [[0x43F, 0x430, 0x441, 0x43F, 0x43E, 0x440, 0x442],
        [0x434, 0x430, 0x43D, 0x43D, 0x44B, 0x435],
        [0x444, 0x438, 0x43E],
        [0x441, 0x43C, 0x435, 0x43D, 0x430],
        [0x438, 0x437, 0x43C, 0x435, 0x43D, 0x438, 0x442, 0x44C]]),
     (Complaint,
       [[0x436, 0x430, 0x43B, 0x43E, 0x431, 0x430],
        [0x443, 0x436, 0x430, 0x441, 0x43D, 0x43E],
        [0x43F, 0x43B, 0x43E, 0x445, 0x43E],
        [0x43D, 0x435, 0x434, 0x43E, 0x432, 0x43E, 0x43B, 0x435, 0x43D]]),
     (Spam,
       [[0x440, 0x435, 0x43A, 0x43B, 0x430, 0x43C, 0x430],
        [0x432, 0x44B, 0x438, 0x433, 0x440, 0x430, 0x43B, 0x438],
        [0x43F, 0x440, 0x438, 0x437],
        [0x430, 0x43A, 0x446, 0x438, 0x44F]])]"

definition lang_code :: "lang \<Rightarrow> ustring" where
  "lang_code l = (case l of KZ \<Rightarrow> ustr ''KZ'' | ENG \<Rightarrow> ustr ''ENG'' | RU \<Rightarrow> ustr ''RU'')"

definition CAPITAL_ESCALATION :: ustring where
  "CAPITAL_ESCALATION = ustr ''CAPITAL_ESCALATION''"

definition UNASSIGNED :: ustring where
  "UNASSIGNED = ustr ''UNASSIGNED''"

section \<open>Constructor\<close>

text \<open>
  \<open>_find_canonical_office\<close>: the first unit whose lower-cased name contains the pattern,
  and the capitalised pattern when no unit does.
\<close>

definition find_canonical_office :: "ustring list \<Rightarrow> ustring \<Rightarrow> ustring" where
  "find_canonical_office us pattern =
     (case filter (\<lambda>off. py_in pattern (py_lower off)) us of
        [] \<Rightarrow> py_capitalize pattern
      | f # _ \<Rightarrow> f)"

text \<open>
  The state \<open>__init__\<close> builds from the normalised unit names and manager rows: both
  capital offices resolved, no round-robin counter, the foreign counter at 0.
\<close>

definition init_engine :: "bool \<Rightarrow> ustring list \<Rightarrow> manager list \<Rightarrow> engine" where
  "init_engine fb us ms =
     \<lparr>enable_fallback = fb, units = us, managers = ms,
      astana_office = find_canonical_office us kw_astan,
      almaty_office = find_canonical_office us kw_almat,
      rr_counters = (\<lambda>k. None), unknown_loc_counter = 0\<rparr>"

section \<open>Analysis\<close>

definition field :: "ustring option \<Rightarrow> ustring \<Rightarrow> ustring" where
  "field v dflt = (case v of None \<Rightarrow> dflt | Some s \<Rightarrow> s)"

text \<open>\<open>re.search(r"[a-z]{3,}", text)\<close>: three lower-case ASCII letters in a row.\<close>

definition is_az :: "nat \<Rightarrow> bool" where
  "is_az c \<longleftrightarrow> 0x61 \<le> c \<and> c \<le> 0x7A"

fun az_run :: "nat \<Rightarrow> nat list \<Rightarrow> bool" where
  "az_run n [] = False"
| "az_run n (c # cs) =
     (if is_az c then (if n + 1 \<ge> 3 then True else az_run (n + 1) cs) else az_run 0 cs)"

definition segment_bucket :: "ustring \<Rightarrow> seg" where
  "segment_bucket raw_seg =
     (if py_in (ustr ''VIP'') raw_seg then VIP
      else if py_in (ustr ''PRIORITY'') raw_seg then PRIORITY
      else MASS)"

definition detect_lang :: "ustring \<Rightarrow> lang" where
  "detect_lang text =
     (if list_ex (\<lambda>c. c \<in> set kz_letters) text then KZ
      else if az_run 0 text then ENG
      else RU)"

definition detect_type :: "ustring \<Rightarrow> intent" where
  "detect_type text =
     (case find (\<lambda>(cat, ws). list_ex (\<lambda>w. py_in w text) ws) keyword_table of
        None \<Rightarrow> Consultation
      | Some (cat, ws) \<Rightarrow> cat)"

definition base_priority :: "intent \<Rightarrow> nat" where
  "base_priority t_type =
     (if t_type \<in> {Fraud, Claim} then 9
      else if t_type \<in> {Complaint, AppFailure} then 7
      else 3)"

definition analyze_ticket :: "ticket \<Rightarrow> analysis" where
  "analyze_ticket t =
     (let text = py_lower (field (description t) []);
          raw_seg = py_upper (field (segment t) (ustr ''MASS''));
          sg = segment_bucket raw_seg;
          lg = detect_lang text;
          t_type = detect_type text;
          p = base_priority t_type;
          p' = (if sg = VIP then max p 10 else if sg = PRIORITY then max p 8 else p)
      in \<lparr>a_type = t_type, a_lang = lg, a_priority = p', a_segment = sg\<rparr>)"

section \<open>Office resolution\<close>

definition office_root :: "ustring \<Rightarrow> ustring" where
  "office_root off = py_strip (py_remove kw_ofis (py_lower off))"

text \<open>\<open>re.sub(r"[^a-z\<dots>]+", "", country)\<close>: only a-z and U+0430..U+044F are kept.\<close>

definition country_norm :: "ustring \<Rightarrow> ustring" where
  "country_norm c = filter (\<lambda>x. is_az x \<or> (0x430 \<le> x \<and> x \<le> 0x44F)) c"

definition city_match :: "ustring \<Rightarrow> ustring \<Rightarrow> bool" where
  "city_match cty off =
     (let root = office_root off in root \<noteq> [] \<and> (py_in root cty \<or> py_in cty root))"

definition get_office :: "engine \<Rightarrow> ticket \<Rightarrow> ustring \<times> engine" where
  "get_office e t =
     (let cn = country_norm (py_lower (field (country t) []));
          cty = py_lower (field (city t) [])
      in case find (city_match cty) (units e) of
           Some off \<Rightarrow> (off, e)
         | None \<Rightarrow>
             if \<not> list_ex (\<lambda>x. py_in x cn) domestic_tokens
             then ([astana_office e, almaty_office e] ! (unknown_loc_counter e mod 2),
                   e\<lparr>unknown_loc_counter := unknown_loc_counter e + 1\<rparr>)
             else (astana_office e, e))"

section \<open>Distribution\<close>

text \<open>
  A row of a manager frame: the index label and the row's fields. A frame is the list of
  its rows in index order, and a selection by a boolean mask, \<open>frame[mask]\<close>, is the
  filter of that list by the predicate the mask is computed from, on an empty frame too.
\<close>

type_synonym row = "nat \<times> manager"

definition rows :: "engine \<Rightarrow> row list" where
  "rows e = zip [0..<length (managers e)] (managers e)"

definition office_pool :: "engine \<Rightarrow> ustring \<Rightarrow> row list" where
  "office_pool e off = filter (\<lambda>(i, m). office m = off) (rows e)"

definition has_skill :: "ustring \<Rightarrow> row \<Rightarrow> bool" where
  "has_skill sk r = (sk \<in> skills_set (snd r))"

definition chief_spec :: "row \<Rightarrow> bool" where
  "chief_spec r = (py_in kw_glav (pos_norm (snd r)) \<and> py_in kw_spec (pos_norm (snd r)))"

text \<open>The three gates applied to the pool of the resolved office.\<close>

definition filter_pipeline :: "engine \<Rightarrow> analysis \<Rightarrow> ustring \<Rightarrow> row list" where
  "filter_pipeline e ai off =
     (let s0 = office_pool e off;
          s1 = (if a_segment ai \<in> {VIP, PRIORITY} then filter (has_skill (ustr ''VIP'')) s0 else s0);
          s2 = (if a_type ai = DataChange then filter chief_spec s1 else s1);
          s3 = (if a_lang ai \<in> {KZ, ENG} then filter (has_skill (lang_code (a_lang ai))) s2 else s2)
      in s3)"

definition capital_subset :: "engine \<Rightarrow> row list" where
  "capital_subset e =
     filter (has_skill (ustr ''VIP''))
       (filter (\<lambda>(i, m). office m \<in> set [astana_office e, almaty_office e]) (rows e))"

text \<open>The escalation block: the office and the subset after it.\<close>

definition escalate :: "engine \<Rightarrow> analysis \<Rightarrow> ustring \<times> row list \<Rightarrow> ustring \<times> row list" where
  "escalate e ai os =
     (if a_segment ai = VIP \<and> snd os = [] then (CAPITAL_ESCALATION, capital_subset e) else os)"

text \<open>The fallback block, which reads the office variable as the escalation block left it.\<close>

definition fallback :: "engine \<Rightarrow> ustring \<times> row list \<Rightarrow> ustring \<times> row list" where
  "fallback e os =
     (if snd os = [] \<and> enable_fallback e then (fst os, office_pool e (fst os)) else os)"

text \<open>
  \<open>sort_values(["load", "name"])\<close>: a stable sort by the pair of load and name, so rows
  equal in both keep their index order.
\<close>

definition sort_rows :: "row list \<Rightarrow> row list" where
  "sort_rows sub = sort_key (\<lambda>r. (load (snd r), name (snd r))) sub"

definition rr_idx_of :: "engine \<Rightarrow> rr_key \<Rightarrow> nat" where
  "rr_idx_of e k = (case rr_counters e k of None \<Rightarrow> 0 | Some c \<Rightarrow> c)"

definition bump_load :: "manager list \<Rightarrow> nat \<Rightarrow> manager list" where
  "bump_load ms i = ms[i := (ms ! i)\<lparr>load := load (ms ! i) + 1\<rparr>]"

text \<open>
  The selection block: the manager name, the index label of the selected row and the
  engine after the counter and the load were written.
\<close>

definition select :: "engine \<Rightarrow> rr_key \<Rightarrow> row list \<Rightarrow> ustring \<times> nat option \<times> engine" where
  "select e rr_key sub =
     (if sub \<noteq> [] then
        (let top_2 = take 2 (sort_rows sub);
             rr_idx = rr_idx_of e rr_key;
             selected = top_2 ! (rr_idx mod length top_2)
         in (name (snd selected), Some (fst selected),
             e\<lparr>rr_counters := (rr_counters e)(rr_key \<mapsto> rr_idx + 1),
               managers := bump_load (managers e) (fst selected)\<rparr>))
      else (UNASSIGNED, None, e))"

text \<open>
  Everything one iteration does before the selection: the effective office, the final
  candidate set and the engine after the office was resolved.
\<close>

definition final_candidates :: "engine \<Rightarrow> ticket \<Rightarrow> ustring \<times> row list \<times> engine" where
  "final_candidates e t =
     (let ai = analyze_ticket t;
          (off, e1) = get_office e t;
          (off', sub) = fallback e1 (escalate e1 ai (off, filter_pipeline e1 ai off))
      in (off', sub, e1))"

definition key_of :: "ustring \<Rightarrow> analysis \<Rightarrow> rr_key" where
  "key_of off ai = (off, a_segment ai, a_type ai, a_lang ai)"

text \<open>One iteration of the loop of \<open>distribute\<close>.\<close>

definition process_ticket :: "engine \<Rightarrow> ticket \<Rightarrow> result \<times> engine" where
  "process_ticket e t =
     (let ai = analyze_ticket t;
          (off, sub, e1) = final_candidates e t;
          (manager_final, row_final, e2) = select e1 (key_of off ai) sub
      in (\<lparr>res_guid = field (guid t) (ustr ''N/A''), ai_type = a_type ai, ai_lang = a_lang ai,
           priority = a_priority ai, res_office = off, res_manager = manager_final,
           res_row = row_final\<rparr>, e2))"

fun distribute :: "engine \<Rightarrow> ticket list \<Rightarrow> result list \<times> engine" where
  "distribute e [] = ([], e)"
| "distribute e (t # ts) =
     (let (r, e1) = process_ticket e t;
          (rs, e2) = distribute e1 ts
      in (r # rs, e2))"


section \<open>Example data\<close>

text \<open>
  Unit names (Astana, Almaty, Karaganda) and the country name Kazakhstan in Cyrillic, as
  code points.
\<close>

definition u_astana :: ustring where
  "u_astana = [0x410, 0x441, 0x442, 0x430, 0x43D, 0x430]"

definition u_almaty :: ustring where
  "u_almaty = [0x410, 0x43B, 0x43C, 0x430, 0x442, 0x44B]"

definition u_karaganda :: ustring where
  "u_karaganda = [0x41A, 0x430, 0x440, 0x430, 0x433, 0x430, 0x43D, 0x434, 0x430]"

definition u_kazakhstan :: ustring where
  "u_kazakhstan = [0x41A, 0x430, 0x437, 0x430, 0x445, 0x441, 0x442, 0x430, 0x43D]"

definition ex_units :: "ustring list" where
  "ex_units = [u_karaganda, u_astana, u_almaty]"

definition ex_aida :: manager where
  "ex_aida = \<lparr>name = ustr ''Aida'', pos_norm = [], skills_set = {}, office = u_astana, load = 0\<rparr>"

definition ex_bolat :: manager where
  "ex_bolat = \<lparr>name = ustr ''Bolat'', pos_norm = [], skills_set = {}, office = u_astana, load = 0\<rparr>"

definition ex_kairat :: manager where
  "ex_kairat = \<lparr>name = ustr ''Kairat'', pos_norm = [], skills_set = {}, office = u_karaganda, load = 2\<rparr>"

definition ex_dana :: manager where
  "ex_dana = \<lparr>name = ustr ''Dana'', pos_norm = [], skills_set = {ustr ''VIP''}, office = u_astana, load = 5\<rparr>"

text \<open>A mass-segment ticket from Astana, a VIP ticket from Karaganda.\<close>

definition ex_ticket :: ticket where
  "ex_ticket = \<lparr>guid = Some (ustr ''T1''), description = Some [], segment = Some (ustr ''Mass''),
      country = Some u_kazakhstan, city = Some u_astana\<rparr>"

definition ex_vip_ticket :: ticket where
  "ex_vip_ticket = \<lparr>guid = Some (ustr ''T2''), description = Some [], segment = Some (ustr ''VIP''),
      country = Some u_kazakhstan, city = Some u_karaganda\<rparr>"

text \<open>A domestic ticket whose city is the empty string, and a ticket from abroad.\<close>

definition ex_ticket_empty_city :: ticket where
  "ex_ticket_empty_city = \<lparr>guid = Some (ustr ''T3''), description = Some [], segment = Some (ustr ''Mass''),
      country = Some u_kazakhstan, city = Some []\<rparr>"

definition ex_ticket_paris :: ticket where
  "ex_ticket_paris = \<lparr>guid = Some (ustr ''T4''), description = Some [], segment = Some (ustr ''Mass''),
      country = Some (ustr ''France''), city = Some (ustr ''Paris'')\<rparr>"

text \<open>
  Engines: two Astana managers with tied loads; a Karaganda manager without the VIP skill
  next to a VIP-skilled Astana manager; the Karaganda manager alone with the fallback
  enabled; a unit table without any capital office.
\<close>

definition ex_engine :: engine where
  "ex_engine = init_engine False ex_units [ex_aida, ex_bolat]"

definition ex_engine_vip :: engine where
  "ex_engine_vip = init_engine False ex_units [ex_kairat, ex_dana]"

definition ex_engine_fb :: engine where
  "ex_engine_fb = init_engine True ex_units [ex_kairat]"

definition ex_engine_nocap :: engine where
  "ex_engine_nocap = init_engine False [u_karaganda] [ex_kairat]"

text \<open>
  The states the first engine runs through on \<open>ex_ticket\<close>: only the two loads and the
  counter map change.
\<close>

definition ex_key :: rr_key where
  "ex_key = (u_astana, MASS, Consultation, RU)"

definition ex_state :: "int \<Rightarrow> int \<Rightarrow> (rr_key \<Rightarrow> nat option) \<Rightarrow> engine" where
  "ex_state la lb cs =
     \<lparr>enable_fallback = False, units = ex_units,
      managers = [ex_aida\<lparr>load := la\<rparr>, ex_bolat\<lparr>load := lb\<rparr>],
      astana_office = u_astana, almaty_office = u_almaty,
      rr_counters = cs, unknown_loc_counter = 0\<rparr>"

section \<open>Auxiliary facts\<close>



lemma rows_mem: "(i, m) \<in> set (rows e) \<longleftrightarrow> i < length (managers e) \<and> m = managers e ! i"
  unfolding rows_def by (auto simp: set_zip intro: exI[where x = i])

lemma get_office_frame:
  "managers (snd (get_office e t)) = managers e"
  "rr_counters (snd (get_office e t)) = rr_counters e"
  "units (snd (get_office e t)) = units e"
  "astana_office (snd (get_office e t)) = astana_office e"
  "almaty_office (snd (get_office e t)) = almaty_office e"
  "enable_fallback (snd (get_office e t)) = enable_fallback e"
  by (simp_all add: get_office_def Let_def split: option.splits)

lemma rows_get_office: "rows (snd (get_office e t)) = rows e"
  by (simp add: rows_def get_office_frame)

lemma office_pool_sub: "set (office_pool e off) \<subseteq> set (rows e)"
  by (auto simp: office_pool_def)

lemma filter_pipeline_sub: "set (filter_pipeline e ai off) \<subseteq> set (rows e)"
  using office_pool_sub[of e off] by (auto simp: filter_pipeline_def Let_def)

lemma capital_subset_sub: "set (capital_subset e) \<subseteq> set (rows e)"
  by (auto simp: capital_subset_def)

lemma escalate_sub: "set (snd os) \<subseteq> set (rows e) \<Longrightarrow> set (snd (escalate e ai os)) \<subseteq> set (rows e)"
  using capital_subset_sub[of e] by (auto simp: escalate_def)

lemma fallback_sub: "set (snd os) \<subseteq> set (rows e) \<Longrightarrow> set (snd (fallback e os)) \<subseteq> set (rows e)"
  using office_pool_sub[of e "fst os"] by (auto simp: fallback_def)

lemma final_candidates_eq:
  "final_candidates e t =
     (fst (fallback (snd (get_office e t)) (escalate (snd (get_office e t)) (analyze_ticket t)
        (fst (get_office e t), filter_pipeline (snd (get_office e t)) (analyze_ticket t) (fst (get_office e t))))),
      snd (fallback (snd (get_office e t)) (escalate (snd (get_office e t)) (analyze_ticket t)
        (fst (get_office e t), filter_pipeline (snd (get_office e t)) (analyze_ticket t) (fst (get_office e t))))),
      snd (get_office e t))"
  by (simp add: final_candidates_def Let_def split_beta)

lemma final_candidates_engine:
  "final_candidates e t = (off, sub, e1) \<Longrightarrow> e1 = snd (get_office e t)"
  by (simp add: final_candidates_eq)

lemma final_candidates_sub:
  assumes "final_candidates e t = (off, sub, e1)"
  shows "set sub \<subseteq> set (rows e)"
proof -
  let ?e1 = "snd (get_office e t)"
  have "set (filter_pipeline ?e1 (analyze_ticket t) (fst (get_office e t))) \<subseteq> set (rows ?e1)"
    by (rule filter_pipeline_sub)
  then have "set (snd (fallback ?e1 (escalate ?e1 (analyze_ticket t)
        (fst (get_office e t), filter_pipeline ?e1 (analyze_ticket t) (fst (get_office e t)))))) \<subseteq> set (rows ?e1)"
    by (intro fallback_sub escalate_sub) simp
  then have *: "set (snd (fallback ?e1 (escalate ?e1 (analyze_ticket t)
        (fst (get_office e t), filter_pipeline ?e1 (analyze_ticket t) (fst (get_office e t)))))) \<subseteq> set (rows e)"
    by (simp only: rows_get_office)
  have "sub = snd (fallback ?e1 (escalate ?e1 (analyze_ticket t)
        (fst (get_office e t), filter_pipeline ?e1 (analyze_ticket t) (fst (get_office e t)))))"
    using assms by (auto simp: final_candidates_eq)
  then show ?thesis using * by simp
qed

lemma sort_rows_set: "set (sort_rows sub) = set sub"
  by (simp add: sort_rows_def)


lemma selected_mem:
  assumes "sub \<noteq> []"
  shows "take 2 (sort_rows sub) ! (c mod length (take 2 (sort_rows sub))) \<in> set sub"
proof -
  let ?top = "take 2 (sort_rows sub)"
  have "length (sort_rows sub) = length sub" by (simp add: sort_rows_def)
  then have "?top \<noteq> []" using assms by (cases "sort_rows sub") auto
  then have "0 < length ?top" by (rule iffD2[OF length_greater_0_conv])
  then have "c mod length ?top < length ?top" by (rule mod_less_divisor)
  then have "?top ! (c mod length ?top) \<in> set ?top" by (rule nth_mem)
  then show ?thesis using set_take_subset[of 2 "sort_rows sub"] by (auto simp: sort_rows_set)
qed

lemma process_ticket_eq:
  "process_ticket e t =
     (let ai = analyze_ticket t; fc = final_candidates e t;
          sl = select (snd (snd fc)) (key_of (fst fc) ai) (fst (snd fc))
      in (\<lparr>res_guid = field (guid t) (ustr ''N/A''), ai_type = a_type ai, ai_lang = a_lang ai,
           priority = a_priority ai, res_office = fst fc, res_manager = fst sl,
           res_row = fst (snd sl)\<rparr>, snd (snd sl)))"
  by (simp add: process_ticket_def Let_def split_beta)

lemma select_empty: "select e k [] = (UNASSIGNED, None, e)"
  by (simp add: select_def)

lemma select_nonempty:
  "sub \<noteq> [] \<Longrightarrow>
   select e k sub =
     (name (snd (take 2 (sort_rows sub) ! (rr_idx_of e k mod length (take 2 (sort_rows sub))))),
      Some (fst (take 2 (sort_rows sub) ! (rr_idx_of e k mod length (take 2 (sort_rows sub))))),
      e\<lparr>rr_counters := (rr_counters e)(k \<mapsto> rr_idx_of e k + 1),
        managers := bump_load (managers e)
          (fst (take 2 (sort_rows sub) ! (rr_idx_of e k mod length (take 2 (sort_rows sub)))))\<rparr>)"
  by (simp add: select_def Let_def)



lemma bump_load_other: "j \<noteq> i \<Longrightarrow> bump_load ms i ! j = ms ! j"
  by (simp add: bump_load_def)

lemma bump_load_name: "map name (bump_load ms i) = map name ms"
  by (cases "i < length ms") (simp_all add: bump_load_def map_update list_update_same_conv list_update_beyond)

lemma select_row_cases:
  "(fst (snd (select e k sub)) = None \<and> fst (select e k sub) = UNASSIGNED \<and> snd (snd (select e k sub)) = e)
   \<or> (\<exists>r \<in> set sub. fst (snd (select e k sub)) = Some (fst r) \<and> fst (select e k sub) = name (snd r)
        \<and> managers (snd (snd (select e k sub))) = bump_load (managers e) (fst r))"
proof (cases "sub = []")
  case True
  then show ?thesis by (simp add: select_empty)
next
  case False
  let ?sel = "take 2 (sort_rows sub) ! (rr_idx_of e k mod length (take 2 (sort_rows sub)))"
  have "?sel \<in> set sub" using False by (rule selected_mem)
  then show ?thesis using False by (auto simp: select_nonempty)
qed

lemma select_frame:
  "units (snd (snd (select e k sub))) = units e"
  "astana_office (snd (snd (select e k sub))) = astana_office e"
  "almaty_office (snd (snd (select e k sub))) = almaty_office e"
  "enable_fallback (snd (snd (select e k sub))) = enable_fallback e"
  "unknown_loc_counter (snd (snd (select e k sub))) = unknown_loc_counter e"
  by (simp_all add: select_def Let_def)

lemma process_ticket_managers:
  "(res_row (fst (process_ticket e t)) = None \<and> res_manager (fst (process_ticket e t)) = UNASSIGNED
      \<and> managers (snd (process_ticket e t)) = managers e)
   \<or> (\<exists>i < length (managers e). res_row (fst (process_ticket e t)) = Some i
        \<and> res_manager (fst (process_ticket e t)) = name (managers e ! i)
        \<and> managers (snd (process_ticket e t)) = bump_load (managers e) i)"
proof -
  obtain off sub e1 where fc: "final_candidates e t = (off, sub, e1)"
    by (cases "final_candidates e t") auto
  have e1: "managers e1 = managers e"
    using final_candidates_engine[OF fc] by (simp add: get_office_frame)
  have sub: "set sub \<subseteq> set (rows e)" using fc by (rule final_candidates_sub)
  let ?k = "key_of off (analyze_ticket t)"
  from select_row_cases[of e1 ?k sub] show ?thesis
  proof
    assume "fst (snd (select e1 ?k sub)) = None \<and> fst (select e1 ?k sub) = UNASSIGNED
      \<and> snd (snd (select e1 ?k sub)) = e1"
    then show ?thesis by (simp add: process_ticket_eq fc Let_def e1)
  next
    assume "\<exists>r \<in> set sub. fst (snd (select e1 ?k sub)) = Some (fst r)
        \<and> fst (select e1 ?k sub) = name (snd r)
        \<and> managers (snd (snd (select e1 ?k sub))) = bump_load (managers e1) (fst r)"
    then obtain r where r: "r \<in> set sub" "fst (snd (select e1 ?k sub)) = Some (fst r)"
      "fst (select e1 ?k sub) = name (snd r)"
      "managers (snd (snd (select e1 ?k sub))) = bump_load (managers e1) (fst r)" by blast
    obtain i m where im: "r = (i, m)" by (cases r)
    then have "(i, m) \<in> set (rows e)" using r(1) sub by auto
    then have "fst r < length (managers e)" "snd r = managers e ! fst r"
      using im by (simp_all add: rows_mem)
    then show ?thesis using r by (simp add: process_ticket_eq fc Let_def e1)
  qed
qed


lemma process_ticket_names: "map name (managers (snd (process_ticket e t))) = map name (managers e)"
  using process_ticket_managers[of e t] by (auto simp: bump_load_name)


lemma distribute_Cons:
  "distribute e (t # ts) =
     (fst (process_ticket e t) # fst (distribute (snd (process_ticket e t)) ts),
      snd (distribute (snd (process_ticket e t)) ts))"
  by (simp add: split_beta Let_def)

declare distribute.simps(2) [simp del]




lemma distribute_names: "map name (managers (snd (distribute e ts))) = map name (managers e)"
  by (induction ts arbitrary: e) (simp_all add: distribute_Cons process_ticket_names)










lemma ustr_VIP: "ustr ''VIP'' = [86, 73, 80]"
  by (simp add: ustr_def)





lemma get_office_range:
  "fst (get_office e t) \<in> set (units e) \<union> {astana_office e, almaty_office e}"
proof (cases "find (city_match (py_lower (field (city t) []))) (units e)")
  case None
  have "[astana_office e, almaty_office e] ! (unknown_loc_counter e mod 2) \<in> {astana_office e, almaty_office e}"
    by (cases "unknown_loc_counter e mod 2 = 0") (auto simp: nth_Cons')
  then show ?thesis using None by (auto simp: get_office_def Let_def)
next
  case (Some off)
  then have "off \<in> set (units e)" by (auto simp: find_Some_iff)
  then show ?thesis using Some by (simp add: get_office_def Let_def)
qed

lemma process_ticket_office:
  "res_office (fst (process_ticket e t)) \<in>
     set (units e) \<union> {CAPITAL_ESCALATION, astana_office e, almaty_office e}"
  using get_office_range[of e t]
  by (auto simp: process_ticket_eq final_candidates_eq Let_def fallback_def escalate_def)

lemma process_ticket_frame:
  "units (snd (process_ticket e t)) = units e"
  "astana_office (snd (process_ticket e t)) = astana_office e"
  "almaty_office (snd (process_ticket e t)) = almaty_office e"
  "enable_fallback (snd (process_ticket e t)) = enable_fallback e"
  by (simp_all add: process_ticket_eq final_candidates_eq Let_def select_frame get_office_frame)

lemma distribute_office:
  "r \<in> set (fst (distribute e ts)) \<Longrightarrow>
   res_office r \<in> set (units e) \<union> {CAPITAL_ESCALATION, astana_office e, almaty_office e}"
proof (induction ts arbitrary: e)
  case Nil
  then show ?case by simp
next
  case (Cons t ts)
  from Cons.prems consider "r = fst (process_ticket e t)"
    | "r \<in> set (fst (distribute (snd (process_ticket e t)) ts))"
    by (auto simp: distribute_Cons)
  then show ?case
  proof cases
    case 1
    then show ?thesis using process_ticket_office[of e t] by simp
  next
    case 2
    from Cons.IH[OF 2] show ?thesis by (simp add: process_ticket_frame)
  qed
qed

lemma find_canonical_office_cases:
  "((\<exists>u \<in> set us. py_in pat (py_lower u)) \<longrightarrow> find_canonical_office us pat \<in> set us)
   \<and> (\<not> (\<exists>u \<in> set us. py_in pat (py_lower u)) \<longrightarrow> find_canonical_office us pat = py_capitalize pat)"
proof (cases "filter (\<lambda>off. py_in pat (py_lower off)) us")
  case Nil
  then have "\<not> (\<exists>u \<in> set us. py_in pat (py_lower u))" by (auto simp: filter_empty_conv)
  then show ?thesis using Nil by (simp add: find_canonical_office_def)
next
  case (Cons f fs)
  then have "f \<in> set (filter (\<lambda>off. py_in pat (py_lower off)) us)" by simp
  then have "f \<in> set us" "py_in pat (py_lower f)" by auto
  then show ?thesis using Cons by (auto simp: find_canonical_office_def)
qed

lemma capitalize_astan: "py_capitalize kw_astan = [0x410, 0x441, 0x442, 0x430, 0x43D]"
  by (simp add: py_capitalize_def kw_astan_def upper_cp_def lower_cp_def cyr_pair_def)

lemma capitalize_almat: "py_capitalize kw_almat = [0x410, 0x43B, 0x43C, 0x430, 0x442]"
  by (simp add: py_capitalize_def kw_almat_def upper_cp_def lower_cp_def cyr_pair_def)

section \<open>Evaluation of the examples\<close>

lemmas cp_defs = lower_cp_def upper_cp_def cyr_pair_def

lemma ex_detect:
  "detect_type [] = Consultation"
  "detect_lang [] = RU"
  by (simp_all add: detect_type_def detect_lang_def keyword_table_def)

lemma ex_buckets:
  "segment_bucket (py_upper (ustr ''Mass'')) = MASS"
  "segment_bucket (py_upper (ustr ''VIP'')) = VIP"
  by (simp_all add: segment_bucket_def py_upper_def ustr_def cp_defs)

lemma py_lower_Nil: "py_lower [] = []"
  by (simp add: py_lower_def)

lemma ex_analysis:
  "analyze_ticket ex_ticket = \<lparr>a_type = Consultation, a_lang = RU, a_priority = 3, a_segment = MASS\<rparr>"
  "analyze_ticket ex_ticket_paris = \<lparr>a_type = Consultation, a_lang = RU, a_priority = 3, a_segment = MASS\<rparr>"
  "analyze_ticket ex_vip_ticket = \<lparr>a_type = Consultation, a_lang = RU, a_priority = 10, a_segment = VIP\<rparr>"
  by (simp_all add: analyze_ticket_def ex_ticket_def ex_ticket_paris_def ex_vip_ticket_def field_def
      ex_detect ex_buckets py_lower_Nil base_priority_def Let_def)

lemma ex_lower:
  "py_lower u_astana = [0x430, 0x441, 0x442, 0x430, 0x43D, 0x430]"
  "py_lower u_almaty = [0x430, 0x43B, 0x43C, 0x430, 0x442, 0x44B]"
  "py_lower u_karaganda = [0x43A, 0x430, 0x440, 0x430, 0x433, 0x430, 0x43D, 0x434, 0x430]"
  "py_lower u_kazakhstan = [0x43A, 0x430, 0x437, 0x430, 0x445, 0x441, 0x442, 0x430, 0x43D]"
  "py_lower (ustr ''Paris'') = [112, 97, 114, 105, 115]"
  "py_lower (ustr ''France'') = [102, 114, 97, 110, 99, 101]"
  by (simp_all add: py_lower_def lower_cp_def cyr_pair_def ustr_def
      u_astana_def u_almaty_def u_karaganda_def u_kazakhstan_def)

lemma ex_roots:
  "office_root u_karaganda = [0x43A, 0x430, 0x440, 0x430, 0x433, 0x430, 0x43D, 0x434, 0x430]"
  "office_root u_astana = [0x430, 0x441, 0x442, 0x430, 0x43D, 0x430]"
  "office_root u_almaty = [0x430, 0x43B, 0x43C, 0x430, 0x442, 0x44B]"
  by (simp_all add: office_root_def ex_lower kw_ofis_def py_strip_def is_space_def)

lemma ex_canonical:
  "find_canonical_office ex_units kw_astan = u_astana"
  "find_canonical_office ex_units kw_almat = u_almaty"
  "find_canonical_office [u_karaganda] kw_astan = [0x410, 0x441, 0x442, 0x430, 0x43D]"
  "find_canonical_office [u_karaganda] kw_almat = [0x410, 0x43B, 0x43C, 0x430, 0x442]"
  by (simp_all add: find_canonical_office_def ex_units_def ex_lower kw_astan_def kw_almat_def
      py_capitalize_def cp_defs)

lemma ex_country:
  "country_norm (py_lower u_kazakhstan) = kw_kazakhstan_ru"
  "country_norm (py_lower (ustr ''France'')) = [102, 114, 97, 110, 99, 101]"
  by (simp_all add: country_norm_def ex_lower is_az_def kw_kazakhstan_ru_def)

lemma ex_match:
  "\<not> city_match (py_lower u_astana) u_karaganda"
  "city_match (py_lower u_astana) u_astana"
  "city_match (py_lower u_karaganda) u_karaganda"
  "city_match [] u_karaganda"
  "\<not> city_match (py_lower (ustr ''Paris'')) u_karaganda"
  by (simp_all add: city_match_def ex_roots ex_lower Let_def)

lemma ex_domestic:
  "list_ex (\<lambda>x. py_in x (country_norm (py_lower u_kazakhstan))) domestic_tokens"
  "\<not> list_ex (\<lambda>x. py_in x (country_norm (py_lower (ustr ''France'')))) domestic_tokens"
  by (simp_all add: ex_country) (simp_all add: domestic_tokens_def kw_kazakhstan_ru_def ustr_def)

lemma ex_get_office:
  "units e = ex_units \<Longrightarrow> get_office e ex_ticket = (u_astana, e)"
  "units e = ex_units \<Longrightarrow> get_office e ex_vip_ticket = (u_karaganda, e)"
  "units e = ex_units \<Longrightarrow> get_office e ex_ticket_empty_city = (u_karaganda, e)"
  "units e = [u_karaganda] \<Longrightarrow> get_office e ex_ticket_paris =
     ([astana_office e, almaty_office e] ! (unknown_loc_counter e mod 2),
      e\<lparr>unknown_loc_counter := unknown_loc_counter e + 1\<rparr>)"
  by (simp_all add: get_office_def ex_ticket_def ex_vip_ticket_def ex_ticket_empty_city_def
      ex_ticket_paris_def field_def Let_def ex_units_def ex_match py_lower_Nil ex_domestic)

lemma rows_two: "managers e = [a, b] \<Longrightarrow> rows e = [(0, a), (Suc 0, b)]"
  by (simp add: rows_def)

lemma rows_one: "managers e = [a] \<Longrightarrow> rows e = [(0, a)]"
  by (simp add: rows_def)

lemma sort_rows_one: "sort_rows [x] = [x]"
  by (simp add: sort_rows_def)

lemma sort_rows_two:
  "sort_rows [x, y] =
     (if (load (snd x), name (snd x)) \<le> (load (snd y), name (snd y)) then [x, y] else [y, x])"
  by (simp add: sort_rows_def)

lemma ex_names:
  "ustr ''Aida'' \<le> ustr ''Bolat''" "\<not> ustr ''Bolat'' \<le> ustr ''Aida''"
  "ustr ''Aida'' \<noteq> ustr ''Bolat''" "ustr ''Aida'' \<noteq> UNASSIGNED" "ustr ''Bolat'' \<noteq> UNASSIGNED"
  by (simp_all add: ustr_def UNASSIGNED_def)

lemma ex_offices:
  "u_karaganda \<noteq> u_astana" "u_karaganda \<noteq> u_almaty" "u_astana \<noteq> u_almaty"
  "u_karaganda \<noteq> CAPITAL_ESCALATION" "u_astana \<noteq> CAPITAL_ESCALATION"
  "u_almaty \<noteq> CAPITAL_ESCALATION"
  "u_astana \<noteq> u_karaganda" "u_almaty \<noteq> u_karaganda"
  "u_karaganda \<noteq> [0x410, 0x441, 0x442, 0x430, 0x43D]"
  "u_karaganda \<noteq> [0x410, 0x43B, 0x43C, 0x430, 0x442]"
  by (simp_all add: u_karaganda_def u_astana_def u_almaty_def CAPITAL_ESCALATION_def ustr_def)

lemma ex_engines:
  "ex_engine = ex_state 0 0 (\<lambda>k. None)"
  "ex_engine_vip = \<lparr>enable_fallback = False, units = ex_units, managers = [ex_kairat, ex_dana],
      astana_office = u_astana, almaty_office = u_almaty,
      rr_counters = (\<lambda>k. None), unknown_loc_counter = 0\<rparr>"
  "ex_engine_fb = \<lparr>enable_fallback = True, units = ex_units, managers = [ex_kairat],
      astana_office = u_astana, almaty_office = u_almaty,
      rr_counters = (\<lambda>k. None), unknown_loc_counter = 0\<rparr>"
  "ex_engine_nocap = \<lparr>enable_fallback = False, units = [u_karaganda], managers = [ex_kairat],
      astana_office = [0x410, 0x441, 0x442, 0x430, 0x43D],
      almaty_office = [0x410, 0x43B, 0x43C, 0x430, 0x442],
      rr_counters = (\<lambda>k. None), unknown_loc_counter = 0\<rparr>"
  by (simp_all add: ex_engine_def ex_engine_vip_def ex_engine_fb_def ex_engine_nocap_def
      init_engine_def ex_canonical ex_state_def ex_aida_def ex_bolat_def)

lemma ex_state_final:
  "final_candidates (ex_state la lb cs) ex_ticket =
     (u_astana, [(0, ex_aida\<lparr>load := la\<rparr>), (Suc 0, ex_bolat\<lparr>load := lb\<rparr>)], ex_state la lb cs)"
proof -
  have u: "units (ex_state la lb cs) = ex_units" by (simp add: ex_state_def)
  have r: "rows (ex_state la lb cs) = [(0, ex_aida\<lparr>load := la\<rparr>), (Suc 0, ex_bolat\<lparr>load := lb\<rparr>)]"
    by (rule rows_two) (simp add: ex_state_def)
  have p: "office_pool (ex_state la lb cs) u_astana =
      [(0, ex_aida\<lparr>load := la\<rparr>), (Suc 0, ex_bolat\<lparr>load := lb\<rparr>)]"
    by (simp add: office_pool_def r ex_aida_def ex_bolat_def)
  have f: "\<not> enable_fallback (ex_state la lb cs)" by (simp add: ex_state_def)
  show ?thesis
    by (simp add: final_candidates_eq ex_get_office(1)[OF u] ex_analysis filter_pipeline_def
        escalate_def fallback_def Let_def p f)
qed

lemma ex_sorted:
  "sort_rows [(0, ex_aida\<lparr>load := la\<rparr>), (Suc 0, ex_bolat\<lparr>load := lb\<rparr>)] =
     (if la \<le> lb then [(0, ex_aida\<lparr>load := la\<rparr>), (Suc 0, ex_bolat\<lparr>load := lb\<rparr>)]
      else [(Suc 0, ex_bolat\<lparr>load := lb\<rparr>), (0, ex_aida\<lparr>load := la\<rparr>)])"
  using ex_names(1) by (auto simp: sort_rows_two ex_aida_def ex_bolat_def)

lemma ex_state_step:
  "process_ticket (ex_state la lb cs) ex_ticket =
     (let c = (case cs ex_key of None \<Rightarrow> 0 | Some c \<Rightarrow> c);
          pick_aida = ((la \<le> lb) = even c)
      in (\<lparr>res_guid = ustr ''T1'', ai_type = Consultation, ai_lang = RU, priority = 3,
           res_office = u_astana,
           res_manager = (if pick_aida then ustr ''Aida'' else ustr ''Bolat''),
           res_row = Some (if pick_aida then 0 else 1)\<rparr>,
          ex_state (if pick_aida then la + 1 else la) (if pick_aida then lb else lb + 1)
            (cs(ex_key \<mapsto> c + 1))))"
proof -
  have k: "key_of u_astana \<lparr>a_type = Consultation, a_lang = RU, a_priority = 3, a_segment = MASS\<rparr> = ex_key"
    by (simp add: key_of_def ex_key_def)
  have c: "rr_idx_of (ex_state la lb cs) ex_key = (case cs ex_key of None \<Rightarrow> 0 | Some c \<Rightarrow> c)"
    by (simp add: rr_idx_of_def ex_state_def)
  have g: "field (guid ex_ticket) (ustr ''N/A'') = ustr ''T1''"
    by (simp add: ex_ticket_def field_def)
  have "x mod 2 = (if even x then 0 else 1)" for x :: nat by presburger
  then have m: "x mod Suc (Suc 0) = (if even x then 0 else Suc 0)" for x :: nat
    by (simp add: numeral_2_eq_2)
  show ?thesis
    by (simp add: process_ticket_eq ex_state_final k g ex_analysis select_def c ex_sorted m Let_def)
       (simp add: ex_state_def bump_load_def ex_aida_def ex_bolat_def)
qed

lemma ex_guids:
  "field (guid ex_ticket) (ustr ''N/A'') = ustr ''T1''"
  "field (guid ex_vip_ticket) (ustr ''N/A'') = ustr ''T2''"
  "field (guid ex_ticket_paris) (ustr ''N/A'') = ustr ''T4''"
  by (simp_all add: ex_ticket_def ex_vip_ticket_def ex_ticket_paris_def field_def)

text \<open>The VIP ticket from Karaganda on the three engines with a single Karaganda pool.\<close>

lemma ex_vip_pipeline:
  "filter_pipeline ex_engine (analyze_ticket ex_vip_ticket) u_karaganda = []"
  "filter_pipeline ex_engine_vip (analyze_ticket ex_vip_ticket) u_karaganda = []"
  "filter_pipeline ex_engine_fb (analyze_ticket ex_vip_ticket) u_karaganda = []"
  by (simp_all add: filter_pipeline_def office_pool_def rows_def ex_engines ex_state_def
      ex_analysis has_skill_def ex_aida_def ex_bolat_def ex_kairat_def ex_dana_def ex_offices Let_def)

lemma ex_capital:
  "capital_subset ex_engine = []"
  "capital_subset ex_engine_vip = [(Suc 0, ex_dana)]"
  "capital_subset ex_engine_fb = []"
  by (simp_all add: capital_subset_def rows_def ex_engines ex_state_def has_skill_def
      ex_aida_def ex_bolat_def ex_kairat_def ex_dana_def ex_offices)

lemma ex_pools:
  "office_pool ex_engine_fb u_karaganda = [(0, ex_kairat)]"
  "office_pool ex_engine_fb CAPITAL_ESCALATION = []"
  "office_pool ex_engine_nocap [0x410, 0x441, 0x442, 0x430, 0x43D] = []"
  by (simp_all add: office_pool_def rows_def ex_engines ex_kairat_def ex_offices)

lemma ex_vip_final:
  "final_candidates ex_engine ex_vip_ticket = (CAPITAL_ESCALATION, [], ex_engine)"
  "final_candidates ex_engine_vip ex_vip_ticket = (CAPITAL_ESCALATION, [(Suc 0, ex_dana)], ex_engine_vip)"
  "final_candidates ex_engine_fb ex_vip_ticket = (CAPITAL_ESCALATION, [], ex_engine_fb)"
proof -
  have u: "units ex_engine = ex_units" "units ex_engine_vip = ex_units" "units ex_engine_fb = ex_units"
    by (simp_all add: ex_engines ex_state_def)
  have s: "a_segment (analyze_ticket ex_vip_ticket) = VIP" by (simp add: ex_analysis)
  have f: "\<not> enable_fallback ex_engine" "\<not> enable_fallback ex_engine_vip" "enable_fallback ex_engine_fb"
    by (simp_all add: ex_engines ex_state_def)
  show "final_candidates ex_engine ex_vip_ticket = (CAPITAL_ESCALATION, [], ex_engine)"
    by (simp add: final_candidates_eq ex_get_office(2)[OF u(1)] ex_vip_pipeline escalate_def s
        ex_capital fallback_def f)
  show "final_candidates ex_engine_vip ex_vip_ticket = (CAPITAL_ESCALATION, [(Suc 0, ex_dana)], ex_engine_vip)"
    by (simp add: final_candidates_eq ex_get_office(2)[OF u(2)] ex_vip_pipeline escalate_def s
        ex_capital fallback_def f)
  show "final_candidates ex_engine_fb ex_vip_ticket = (CAPITAL_ESCALATION, [], ex_engine_fb)"
    by (simp add: final_candidates_eq ex_get_office(2)[OF u(3)] ex_vip_pipeline escalate_def s
        ex_capital fallback_def f ex_pools)
qed

lemma ex_vip_unassigned:
  "process_ticket ex_engine ex_vip_ticket =
     (\<lparr>res_guid = ustr ''T2'', ai_type = Consultation, ai_lang = RU, priority = 10,
       res_office = CAPITAL_ESCALATION, res_manager = UNASSIGNED, res_row = None\<rparr>, ex_engine)"
  "process_ticket ex_engine_fb ex_vip_ticket =
     (\<lparr>res_guid = ustr ''T2'', ai_type = Consultation, ai_lang = RU, priority = 10,
       res_office = CAPITAL_ESCALATION, res_manager = UNASSIGNED, res_row = None\<rparr>, ex_engine_fb)"
  by (simp_all add: process_ticket_eq ex_vip_final ex_guids ex_analysis select_empty Let_def)

lemma ex_vip_escalated:
  "fst (process_ticket ex_engine_vip ex_vip_ticket) =
     \<lparr>res_guid = ustr ''T2'', ai_type = Consultation, ai_lang = RU, priority = 10,
       res_office = CAPITAL_ESCALATION, res_manager = ustr ''Dana'', res_row = Some (Suc 0)\<rparr>"
  by (simp add: process_ticket_eq ex_vip_final ex_guids ex_analysis select_def sort_rows_one Let_def)
     (simp add: ex_dana_def)

text \<open>The ticket from abroad on the engine without a capital office.\<close>

lemma ex_paris_final:
  "final_candidates ex_engine_nocap ex_ticket_paris =
     ([0x410, 0x441, 0x442, 0x430, 0x43D], [],
      ex_engine_nocap\<lparr>unknown_loc_counter := Suc 0\<rparr>)"
proof -
  have u: "units ex_engine_nocap = [u_karaganda]" by (simp add: ex_engines)
  have g: "get_office ex_engine_nocap ex_ticket_paris =
      ([0x410, 0x441, 0x442, 0x430, 0x43D], ex_engine_nocap\<lparr>unknown_loc_counter := Suc 0\<rparr>)"
    by (simp add: ex_get_office(4)[OF u]) (simp add: ex_engines)
  have p: "office_pool (ex_engine_nocap\<lparr>unknown_loc_counter := Suc 0\<rparr>) [0x410, 0x441, 0x442, 0x430, 0x43D] = []"
    using ex_pools(3) by (simp add: office_pool_def rows_def)
  show ?thesis
    by (simp add: final_candidates_eq g ex_analysis filter_pipeline_def p escalate_def fallback_def Let_def)
qed

lemma ex_paris_result:
  "fst (process_ticket ex_engine_nocap ex_ticket_paris) =
     \<lparr>res_guid = ustr ''T4'', ai_type = Consultation, ai_lang = RU, priority = 3,
       res_office = [0x410, 0x441, 0x442, 0x430, 0x43D], res_manager = UNASSIGNED, res_row = None\<rparr>"
  by (simp add: process_ticket_eq ex_paris_final ex_guids ex_analysis select_empty Let_def)

text \<open>The run of three mass tickets on the two tied Astana managers.\<close>

lemma ex_run_steps:
  "process_ticket ex_engine ex_ticket =
     (\<lparr>res_guid = ustr ''T1'', ai_type = Consultation, ai_lang = RU, priority = 3,
       res_office = u_astana, res_manager = ustr ''Aida'', res_row = Some 0\<rparr>,
      ex_state 1 0 [ex_key \<mapsto> Suc 0])"
  "process_ticket (ex_state 1 0 [ex_key \<mapsto> Suc 0]) ex_ticket =
     (\<lparr>res_guid = ustr ''T1'', ai_type = Consultation, ai_lang = RU, priority = 3,
       res_office = u_astana, res_manager = ustr ''Aida'', res_row = Some 0\<rparr>,
      ex_state 2 0 [ex_key \<mapsto> Suc (Suc 0)])"
  "process_ticket (ex_state 2 0 [ex_key \<mapsto> Suc (Suc 0)]) ex_ticket =
     (\<lparr>res_guid = ustr ''T1'', ai_type = Consultation, ai_lang = RU, priority = 3,
       res_office = u_astana, res_manager = ustr ''Bolat'', res_row = Some (Suc 0)\<rparr>,
      ex_state 2 1 [ex_key \<mapsto> Suc (Suc (Suc 0))])"
  by (simp_all add: ex_engines(1) ex_state_step Let_def)






section \<open>One result per ticket, in input order\<close>



section \<open>Load accounting\<close>



section \<open>Empty candidate set\<close>



section \<open>Segment bucket\<close>



section \<open>Round robin within a bucket\<close>




section \<open>Selector\<close>



section \<open>Office resolution on empty fields\<close>

text \<open>
  Claim C2 says that an empty city matches no business unit, so that the country decides
  the office. In the code the test \<open>city in root\<close> holds for the empty city and every
  non-empty root: the domestic ticket with the empty city is resolved to the first unit,
  Karaganda, without an error and without reaching the country branch, which would have
  given the Astana office.
\<close>

theorem empty_city_matches_first_unit:
  "city ex_ticket_empty_city = Some []
   \<and> get_office ex_engine ex_ticket_empty_city = (u_karaganda, ex_engine)
   \<and> units ex_engine = [u_karaganda, u_astana, u_almaty]
   \<and> astana_office ex_engine = u_astana
   \<and> u_karaganda \<noteq> u_astana"
proof -
  have u: "units ex_engine = ex_units" by (simp add: ex_engines(1) ex_state_def)
  show ?thesis
    using ex_get_office(3)[OF u] ex_offices(1)
    by (simp add: ex_ticket_empty_city_def ex_engines(1) ex_state_def ex_units_def)
qed

section \<open>Escalation\<close>



section \<open>Fallback\<close>

text \<open>
  Claim C6 says that with the fallback enabled an empty candidate set is replaced by the
  whole pool of the ticket's resolved office. The fallback block reads the office
  variable after the escalation block has overwritten it with the marker: for a VIP
  ticket that was escalated without success the pool looked up is that of the marker,
  which is empty, and the ticket stays unassigned although its resolved office,
  Karaganda, has a manager.
\<close>

theorem fallback_after_escalation_reads_marker:
  "enable_fallback ex_engine_fb
   \<and> get_office ex_engine_fb ex_vip_ticket = (u_karaganda, ex_engine_fb)
   \<and> office_pool ex_engine_fb u_karaganda = [(0, ex_kairat)]
   \<and> final_candidates ex_engine_fb ex_vip_ticket = (CAPITAL_ESCALATION, [], ex_engine_fb)
   \<and> res_manager (fst (process_ticket ex_engine_fb ex_vip_ticket)) = UNASSIGNED
   \<and> managers (snd (process_ticket ex_engine_fb ex_vip_ticket)) = [ex_kairat]"
proof -
  have u: "units ex_engine_fb = ex_units" by (simp add: ex_engines)
  show ?thesis
    using ex_get_office(2)[OF u]
    by (simp add: ex_pools ex_vip_final ex_vip_unassigned) (simp add: ex_engines)
qed

section \<open>Recorded office\<close>

text \<open>
  Claim C8, as stated, fails: when no unit name contains the pattern of a capital office,
  the canonical office is the capitalised pattern itself, which is then recorded for a
  ticket from abroad although it names no unit and is not the escalation marker.
\<close>

theorem office_not_a_unit:
  "units ex_engine_nocap = [u_karaganda]
   \<and> map res_office (fst (distribute ex_engine_nocap [ex_ticket_paris])) =
       [[0x410, 0x441, 0x442, 0x430, 0x43D]]
   \<and> [0x410, 0x441, 0x442, 0x430, 0x43D] \<notin> set (units ex_engine_nocap) \<union> {CAPITAL_ESCALATION}"
proof -
  have u: "units ex_engine_nocap = [u_karaganda]" by (simp add: ex_engines(4))
  have c: "[0x410, 0x441, 0x442, 0x430, 0x43D] \<noteq> CAPITAL_ESCALATION"
    by (simp add: CAPITAL_ESCALATION_def ustr_def)
  show ?thesis
    using ex_offices(9) c by (simp add: distribute_Cons ex_paris_result u)
qed

text \<open>
  Claim C8, amended. The office recorded for a ticket is the name of a unit, the escalation
  marker, or the capitalised pattern of a capital office (U+0410 U+0441 U+0442 U+0430
  U+043D for Astana, U+0410 U+043B U+043C U+0430 U+0442 for Almaty), which stands in for
  a capital office missing from the units. When the units hold a name containing each of
  the two patterns, the recorded office is always a unit name or the marker.
\<close>

theorem office_unit_marker_or_pattern:
  assumes "r \<in> set (fst (distribute (init_engine fb us ms) ts))"
  shows "res_office r \<in> set us \<union> {CAPITAL_ESCALATION, [0x410, 0x441, 0x442, 0x430, 0x43D],
            [0x410, 0x43B, 0x43C, 0x430, 0x442]}
       \<and> ((\<exists>u \<in> set us. py_in kw_astan (py_lower u)) \<and> (\<exists>u \<in> set us. py_in kw_almat (py_lower u))
            \<longrightarrow> res_office r \<in> set us \<union> {CAPITAL_ESCALATION})"
proof -
  have 1: "res_office r \<in> set us \<union> {CAPITAL_ESCALATION, find_canonical_office us kw_astan,
            find_canonical_office us kw_almat}"
    using distribute_office[OF assms] by (simp add: init_engine_def)
  show ?thesis
    using 1 find_canonical_office_cases[of us kw_astan] find_canonical_office_cases[of us kw_almat]
    by (auto simp: capitalize_astan capitalize_almat)
qed

theorem office_unit_marker_or_pattern_witness:
  "fst (process_ticket ex_engine ex_ticket) \<in> set (fst (distribute (init_engine False ex_units [ex_aida, ex_bolat]) [ex_ticket]))
   \<and> u_astana \<in> set ex_units \<and> py_in kw_astan (py_lower u_astana)
   \<and> u_almaty \<in> set ex_units \<and> py_in kw_almat (py_lower u_almaty)
   \<and> res_office (fst (process_ticket ex_engine ex_ticket)) \<in> set ex_units \<union> {CAPITAL_ESCALATION}
   \<and> res_office (fst (process_ticket ex_engine ex_ticket)) = u_astana"
proof -
  let ?r = "fst (process_ticket ex_engine ex_ticket)"
  have m: "?r \<in> set (fst (distribute (init_engine False ex_units [ex_aida, ex_bolat]) [ex_ticket]))"
    by (simp add: distribute_Cons flip: ex_engine_def)
  have p: "u_astana \<in> set ex_units" "py_in kw_astan (py_lower u_astana)"
    "u_almaty \<in> set ex_units" "py_in kw_almat (py_lower u_almaty)"
    by (simp_all add: ex_units_def ex_lower kw_astan_def kw_almat_def)
  from office_unit_marker_or_pattern[OF m] p
  have "res_office ?r \<in> set ex_units \<union> {CAPITAL_ESCALATION}" by blast
  moreover have "res_office ?r = u_astana" by (simp add: ex_run_steps)
  ultimately show ?thesis using m p by simp
qed

end
